theory Spec2Isabelle
  imports Complex_Main "HOL-Library.Multiset"
begin

section \<open>JavaScript values read by the treemap plugin\<close>

text \<open>
  The plugin (\<^verbatim>\<open>src/treemap.ts\<close>) receives rows of type \<^verbatim>\<open>any[][]\<close>. A cell is
  modelled as one of the JSON-like values the code distinguishes: \<^verbatim>\<open>undefined\<close> (also what
  an out-of-range index yields), \<^verbatim>\<open>null\<close>, a string, or a number. A number is \<^verbatim>\<open>NaN\<close>,
  an infinity, or a finite value; finite values are exact rationals, the rounding of IEEE
  doubles and the negative zero are not modelled (no property below depends on them: only
  the order of values, the sign of a difference, and whether a value is \<^verbatim>\<open>NaN\<close> or zero
  are used).
\<close>

datatype jsnum = NaN | NegInf | Fin rat | PosInf

datatype jsval = JUndefined | JNull | JString string | JNumber jsnum

datatype error = TypeError string | Error string | HostError string

datatype logEntry = Log string | LogError string

text \<open>\<^verbatim>\<open>a - b\<close> on numbers.\<close>

fun js_sub :: "jsnum \<Rightarrow> jsnum \<Rightarrow> jsnum" where
  "js_sub NaN _ = NaN"
| "js_sub _ NaN = NaN"
| "js_sub (Fin x) (Fin y) = Fin (x - y)"
| "js_sub (Fin x) PosInf = NegInf"
| "js_sub (Fin x) NegInf = PosInf"
| "js_sub PosInf PosInf = NaN"
| "js_sub PosInf _ = PosInf"
| "js_sub NegInf NegInf = NaN"
| "js_sub NegInf _ = NegInf"

text \<open>\<^verbatim>\<open>v > 0\<close> and \<^verbatim>\<open>a >= b\<close>: every comparison with \<^verbatim>\<open>NaN\<close> is false.\<close>

fun js_gt0 :: "jsnum \<Rightarrow> bool" where
  "js_gt0 PosInf = True"
| "js_gt0 (Fin r) = (0 < r)"
| "js_gt0 _ = False"

fun js_ge :: "jsnum \<Rightarrow> jsnum \<Rightarrow> bool" where
  "js_ge NaN _ = False"
| "js_ge _ NaN = False"
| "js_ge PosInf _ = True"
| "js_ge _ NegInf = True"
| "js_ge (Fin x) (Fin y) = (y \<le> x)"
| "js_ge _ _ = False"

text \<open>Truthiness, as \<^verbatim>\<open>||\<close> and \<^verbatim>\<open>!\<close> test it; \<open>None\<close> is an absent property.\<close>

fun truthy_num :: "jsnum option \<Rightarrow> bool" where
  "truthy_num None = False"
| "truthy_num (Some NaN) = False"
| "truthy_num (Some (Fin r)) = (r \<noteq> 0)"
| "truthy_num (Some _) = True"

fun truthy_str :: "string option \<Rightarrow> bool" where
  "truthy_str None = False"
| "truthy_str (Some s) = (s \<noteq> [])"

subsection \<open>parseFloat\<close>

text \<open>
  \<^verbatim>\<open>parseFloat(v)\<close> converts its argument to a string, skips leading white space (here
  the ASCII white space characters) and reads
  the longest prefix that is a decimal literal (sign, \<^verbatim>\<open>Infinity\<close>, digits, fraction,
  exponent); with no such prefix the result is \<^verbatim>\<open>NaN\<close>. \<^verbatim>\<open>undefined\<close> and \<^verbatim>\<open>null\<close>
  become the strings "undefined" and "null", hence \<^verbatim>\<open>NaN\<close>; a number is printed and read
  back unchanged. The value of a literal is its exact rational: rounding to a double,
  overflow to an infinity and underflow to zero are not modelled; this can change the
  value of a point and its place among the others, never whether the value is
  \<^verbatim>\<open>NaN\<close>. White space outside ASCII (such as U+00A0) is not skipped: a string that
  starts with it is read as \<^verbatim>\<open>NaN\<close> here.
\<close>

definition is_ws :: "char \<Rightarrow> bool" where
  "is_ws c = (c \<in> set [CHR '' '', CHR 0x09, CHR 0x0A, CHR 0x0B, CHR 0x0C, CHR 0x0D])"

definition is_digit :: "char \<Rightarrow> bool" where
  "is_digit c = ((48::nat) \<le> of_char c \<and> (of_char c :: nat) \<le> 57)"

definition digits_val :: "string \<Rightarrow> nat" where
  "digits_val ds = foldl (\<lambda>acc c. 10 * acc + (of_char c - 48)) 0 ds"

definition exponent_part :: "string \<Rightarrow> (bool \<times> nat)" where
  "exponent_part s =
     (case s of
        [] \<Rightarrow> (False, 0)
      | c # r \<Rightarrow>
          if c = CHR ''e'' \<or> c = CHR ''E'' then
            (let (neg, ds) =
                   (case r of
                      [] \<Rightarrow> (False, [])
                    | d # r' \<Rightarrow>
                        if d = CHR ''-'' then (True, r')
                        else if d = CHR ''+'' then (False, r')
                        else (False, r))
             in if takeWhile is_digit ds = [] then (False, 0)
                else (neg, digits_val (takeWhile is_digit ds)))
          else (False, 0))"

definition parseFloat_str :: "string \<Rightarrow> jsnum" where
  "parseFloat_str s =
     (let t = dropWhile is_ws s;
          (neg, u) =
             (case t of
                [] \<Rightarrow> (False, [])
              | c # r \<Rightarrow>
                  if c = CHR ''-'' then (True, r)
                  else if c = CHR ''+'' then (False, r)
                  else (False, t))
      in if take 8 u = ''Infinity'' then (if neg then NegInf else PosInf)
         else
           (let ip = takeWhile is_digit u;
                r1 = dropWhile is_digit u;
                (fp, r2) =
                   (case r1 of
                      [] \<Rightarrow> ([], [])
                    | c # r \<Rightarrow>
                        if c = CHR ''.'' then (takeWhile is_digit r, dropWhile is_digit r)
                        else ([], r1))
            in if ip = [] \<and> fp = [] then NaN
               else
                 (let mant = of_nat (digits_val ip) + of_nat (digits_val fp) / 10 ^ length fp;
                      (eneg, e) = exponent_part r2;
                      m = (if eneg then mant / 10 ^ e else mant * 10 ^ e)
                  in Fin (if neg then - m else m))))"

fun parseFloat :: "jsval \<Rightarrow> jsnum" where
  "parseFloat JUndefined = NaN"
| "parseFloat JNull = NaN"
| "parseFloat (JString s) = parseFloat_str s"
| "parseFloat (JNumber n) = n"

subsection \<open>toString\<close>

text \<open>
  \<^verbatim>\<open>v.toString()\<close> throws a TypeError on \<^verbatim>\<open>undefined\<close> and \<^verbatim>\<open>null\<close>. How a finite
  number prints (shortest round-trip decimal) is a parameter \<open>n2s\<close> of the model.
\<close>

fun number_toString :: "(rat \<Rightarrow> string) \<Rightarrow> jsnum \<Rightarrow> string" where
  "number_toString n2s NaN = ''NaN''"
| "number_toString n2s PosInf = ''Infinity''"
| "number_toString n2s NegInf = ''-Infinity''"
| "number_toString n2s (Fin r) = n2s r"

fun js_toString :: "(rat \<Rightarrow> string) \<Rightarrow> jsval \<Rightarrow> error + string" where
  "js_toString n2s JUndefined =
     Inl (TypeError ''Cannot read properties of undefined (reading 'toString')'')"
| "js_toString n2s JNull =
     Inl (TypeError ''Cannot read properties of null (reading 'toString')'')"
| "js_toString n2s (JString s) = Inr s"
| "js_toString n2s (JNumber n) = Inr (number_toString n2s n)"

text \<open>\<^verbatim>\<open>row[i]\<close>: an index past the end of the array reads \<^verbatim>\<open>undefined\<close>.\<close>

definition row_at :: "jsval list \<Rightarrow> nat \<Rightarrow> jsval" where
  "row_at row i = (if i < length row then row ! i else JUndefined)"

section \<open>The chart model supplied by the host\<close>

datatype columnType = UNKNOWN | MEASURE | ATTRIBUTE

record chartColumn =
  col_id :: string
  col_name :: string
  col_type :: columnType

text \<open>
  A dimension's \<^verbatim>\<open>columns\<close> is an array of columns; \<^verbatim>\<open>getDefaultChartConfig\<close> also
  stores a single column object there (\<^verbatim>\<open>attributeColumns[0]\<close>), on which \<^verbatim>\<open>columns[0]\<close>
  reads \<^verbatim>\<open>undefined\<close>.
\<close>

datatype columnsField = ColumnArray "chartColumn list" | ColumnObject chartColumn

record dimension =
  dim_key :: string
  dim_columns :: columnsField

record chartConfig =
  cfg_key :: string
  cfg_dimensions :: "dimension list"

record dataPointsArray =
  dpa_columns :: "string list"
  dataValue :: "jsval list list"

record queryData =
  qd_data :: "dataPointsArray option"

record visualProps =
  numberFormat :: "string option"
  numOfLabels :: "jsnum option"
  vp_gradientColor0 :: "string option"
  vp_gradientColor50 :: "string option"
  vp_gradientColor100 :: "string option"

record chartModelConfig =
  cc_chartConfig :: "chartConfig list option"

record chartModel =
  cm_columns :: "chartColumn list"
  cm_data :: "queryData list option"
  cm_config :: "chartModelConfig option"
  cm_visualProps :: "visualProps option"

section \<open>getDataModel\<close>

record tooltipEntry =
  columnName :: string
  tt_value :: jsval

record treemapPoint =
  pt_name :: string
  pt_value :: jsnum
  pt_colorValue :: jsnum
  pt_tooltipData :: "tooltipEntry list"

record dataModel =
  dm_values :: "treemapPoint list"
  dm_categoryName :: "string option"
  dm_measureColumns :: "string list option"

definition empty_dataModel :: dataModel where
  "empty_dataModel = \<lparr>dm_values = [], dm_categoryName = None, dm_measureColumns = None\<rparr>"

text \<open>
  \<^verbatim>\<open>chartModel.config?.chartConfig?.[0].dimensions ?? []\<close>: the chain stops at an absent
  \<^verbatim>\<open>config\<close> or \<^verbatim>\<open>chartConfig\<close>, but an empty \<^verbatim>\<open>chartConfig\<close> array makes
  \<^verbatim>\<open>.dimensions\<close> read a property of \<^verbatim>\<open>undefined\<close>, which throws.
\<close>

definition configDimensions_of :: "chartModel \<Rightarrow> error + dimension list" where
  "configDimensions_of cm =
     (case cm_config cm of
        None \<Rightarrow> Inr []
      | Some c \<Rightarrow>
          (case cc_chartConfig c of
             None \<Rightarrow> Inr []
           | Some [] \<Rightarrow>
               Inl (TypeError ''Cannot read properties of undefined (reading 'dimensions')'')
           | Some (c0 # _) \<Rightarrow> Inr (cfg_dimensions c0)))"

text \<open>\<^verbatim>\<open>chartModel.data?.[0]?.data ?? undefined\<close>\<close>

definition dataArr_of :: "chartModel \<Rightarrow> dataPointsArray option" where
  "dataArr_of cm =
     (case cm_data cm of
        None \<Rightarrow> None
      | Some [] \<Rightarrow> None
      | Some (d # _) \<Rightarrow> qd_data d)"

text \<open>\<^verbatim>\<open>dims?.[i]?.columns?.[0]\<close>\<close>

definition first_column :: "dimension list \<Rightarrow> nat \<Rightarrow> chartColumn option" where
  "first_column dims i =
     (if i < length dims then
        (case dim_columns (dims ! i) of
           ColumnArray (c # _) \<Rightarrow> Some c
         | ColumnArray [] \<Rightarrow> None
         | ColumnObject _ \<Rightarrow> None)
      else None)"

text \<open>\<^verbatim>\<open>_.filter(chartModel.columns, col => col.type === ColumnType.MEASURE)\<close>\<close>

definition measureColumns_of :: "chartModel \<Rightarrow> chartColumn list" where
  "measureColumns_of cm = filter (\<lambda>col. col_type col = MEASURE) (cm_columns cm)"

text \<open>The callback of \<^verbatim>\<open>dataArr.dataValue.map\<close>: one point per row.\<close>

definition tooltipData_of :: "chartColumn list \<Rightarrow> jsval list \<Rightarrow> tooltipEntry list" where
  "tooltipData_of measureColumns row =
     map (\<lambda>(col, colIndex). \<lparr>columnName = col_name col, tt_value = row_at row (colIndex + 1)\<rparr>)
         (zip measureColumns [0 ..< length measureColumns])"

definition mkPoint ::
    "(rat \<Rightarrow> string) \<Rightarrow> chartColumn list \<Rightarrow> jsval list \<Rightarrow> error + treemapPoint" where
  "mkPoint n2s measureColumns row =
     (let categoryName = row_at row 0;
          tooltipData = tooltipData_of measureColumns row
      in case (if categoryName \<noteq> JUndefined then js_toString n2s categoryName
               else Inr ''Unnamed'') of
           Inl e \<Rightarrow> Inl e
         | Inr nm \<Rightarrow>
             Inr \<lparr>pt_name = nm,
                  pt_value = parseFloat (row_at row 1),
                  pt_colorValue = parseFloat (row_at row 2),
                  pt_tooltipData = tooltipData\<rparr>)"

text \<open>\<^verbatim>\<open>Array.prototype.map\<close> with a callback that may throw: the first throw ends it.\<close>

fun mapE :: "('a \<Rightarrow> error + 'b) \<Rightarrow> 'a list \<Rightarrow> error + 'b list" where
  "mapE f [] = Inr []"
| "mapE f (x # xs) =
     (case f x of
        Inl e \<Rightarrow> Inl e
      | Inr y \<Rightarrow> (case mapE f xs of Inl e \<Rightarrow> Inl e | Inr ys \<Rightarrow> Inr (y # ys)))"

text \<open>
  \<^verbatim>\<open>dataModel.sort((a, b) => b.value - a.value)\<close>. \<^verbatim>\<open>Array.prototype.sort\<close> is a stable
  sort: \<open>x\<close> is placed after \<open>y\<close> exactly when the comparator's result for \<open>(x, y)\<close> is
  greater than zero (a \<^verbatim>\<open>NaN\<close> result counts as zero). It is modelled as the stable
  insertion sort; any stable sort computes the same list when the comparator is consistent,
  that is when no point's value is \<^verbatim>\<open>NaN\<close>. When some value is \<^verbatim>\<open>NaN\<close> the comparator
  is inconsistent and the order is left to the engine: the definition then gives one
  rearrangement of the points, not necessarily the engine's. What is proved below of a
  list that may hold \<^verbatim>\<open>NaN\<close> values is therefore either about the points as a multiset
  or true of every rearrangement.
\<close>

definition comparePoints :: "treemapPoint \<Rightarrow> treemapPoint \<Rightarrow> jsnum" where
  "comparePoints a b = js_sub (pt_value b) (pt_value a)"

fun insertPoint :: "treemapPoint \<Rightarrow> treemapPoint list \<Rightarrow> treemapPoint list" where
  "insertPoint x [] = [x]"
| "insertPoint x (y # ys) =
     (if js_gt0 (comparePoints x y) then y # insertPoint x ys else x # y # ys)"

fun sortPoints :: "treemapPoint list \<Rightarrow> treemapPoint list" where
  "sortPoints [] = []"
| "sortPoints (x # xs) = insertPoint x (sortPoints xs)"

text \<open>The body of the \<^verbatim>\<open>try\<close> block of \<^verbatim>\<open>getDataModel\<close>, with what it logs.\<close>

definition getDataModel_try ::
    "(rat \<Rightarrow> string) \<Rightarrow> chartModel \<Rightarrow> (error + dataModel) \<times> logEntry list" where
  "getDataModel_try n2s cm =
     (case configDimensions_of cm of
        Inl e \<Rightarrow> (Inl e, [])
      | Inr configDimensions \<Rightarrow>
          (case dataArr_of cm of
             None \<Rightarrow> (Inr empty_dataModel, [LogError ''No data found in chartModel''])
           | Some dataArr \<Rightarrow>
               (let categoryColumn = first_column configDimensions 0;
                    measureColumns = measureColumns_of cm
                in if categoryColumn = None \<or> length measureColumns = 0 then
                     (Inr empty_dataModel,
                      [LogError ''The chart requires a category and at least one measure.''])
                   else
                     (case mapE (mkPoint n2s measureColumns) (dataValue dataArr) of
                        Inl e \<Rightarrow> (Inl e, [])
                      | Inr pts \<Rightarrow>
                          (Inr \<lparr>dm_values = sortPoints pts,
                                dm_categoryName = map_option col_name categoryColumn,
                                dm_measureColumns = Some (map col_name measureColumns)\<rparr>,
                           [])))))"

definition getDataModel :: "(rat \<Rightarrow> string) \<Rightarrow> chartModel \<Rightarrow> dataModel \<times> logEntry list" where
  "getDataModel n2s cm =
     (case getDataModel_try n2s cm of
        (Inr dm, logs) \<Rightarrow> (dm, Log ''Extracting data model from chartModel: '' # logs)
      | (Inl e, logs) \<Rightarrow>
          (empty_dataModel,
           Log ''Extracting data model from chartModel: '' # logs
             @ [LogError ''Error in getDataModel: '']))"

text \<open>A list of points is in descending order of \<^verbatim>\<open>value\<close>.\<close>

definition sorted_desc :: "treemapPoint list \<Rightarrow> bool" where
  "sorted_desc ps = sorted_wrt (\<lambda>a b. js_ge (pt_value a) (pt_value b)) ps"

text \<open>The rows \<^verbatim>\<open>getDataModel\<close> maps over (none when the data array is absent).\<close>

definition rows_of :: "chartModel \<Rightarrow> jsval list list" where
  "rows_of cm = (case dataArr_of cm of None \<Rightarrow> [] | Some d \<Rightarrow> dataValue d)"

text \<open>The category column \<^verbatim>\<open>getDataModel\<close> looks for: \<^verbatim>\<open>configDimensions?.[0]?.columns?.[0]\<close>.\<close>

definition categoryColumn_of :: "chartModel \<Rightarrow> chartColumn option" where
  "categoryColumn_of cm =
     (case configDimensions_of cm of Inl _ \<Rightarrow> None | Inr dims \<Rightarrow> first_column dims 0)"

section \<open>Module-level options\<close>

text \<open>
  The five \<^verbatim>\<open>let\<close> variables at the top of the module; they live as long as the page
  and are shared by all render passes.
\<close>

record globals =
  userNumberFormat :: string
  numberOfLabels :: jsnum
  gradientColor0 :: string
  gradientColor50 :: string
  gradientColor100 :: string

definition initial_globals :: globals where
  "initial_globals =
     \<lparr>userNumberFormat = ''0.0'',
      numberOfLabels = Fin 1,
      gradientColor0 = ''#F0F0F0'',
      gradientColor50 = ''#A8D5BA'',
      gradientColor100 = ''#4F6D7A''\<rparr>"

text \<open>\<^verbatim>\<open>prop || current\<close>\<close>

definition or_str :: "string option \<Rightarrow> string \<Rightarrow> string" where
  "or_str p cur = (case p of None \<Rightarrow> cur | Some s \<Rightarrow> if truthy_str p then s else cur)"

definition or_num :: "jsnum option \<Rightarrow> jsnum \<Rightarrow> jsnum" where
  "or_num p cur = (case p of None \<Rightarrow> cur | Some n \<Rightarrow> if truthy_num p then n else cur)"

text \<open>The five assignments of \<^verbatim>\<open>render\<close> (lines 167 to 171).\<close>

definition apply_visualProps :: "visualProps \<Rightarrow> globals \<Rightarrow> globals" where
  "apply_visualProps vp g =
     \<lparr>userNumberFormat = or_str (numberFormat vp) (userNumberFormat g),
      numberOfLabels = or_num (numOfLabels vp) (numberOfLabels g),
      gradientColor0 = or_str (vp_gradientColor0 vp) (gradientColor0 g),
      gradientColor50 = or_str (vp_gradientColor50 vp) (gradientColor50 g),
      gradientColor100 = or_str (vp_gradientColor100 vp) (gradientColor100 g)\<rparr>"

section \<open>Events, chart options and effects\<close>

record tuplePoint =
  columnId :: string
  tp_value :: jsval

record customAction =
  action_id :: string
  action_label :: string
  action_icon :: string

record contextMenuPayload =
  cm_event :: "jsnum option \<times> jsnum option"
  clickedPoint_tuple :: "tuplePoint list"
  customActions :: "customAction list"

datatype tsEvent =
    RenderStart
  | RenderComplete
  | RenderError error
  | OpenContextMenu contextMenuPayload

text \<open>
  The object passed to \<^verbatim>\<open>Highcharts.chart\<close>: the series data, the colour axis, the legend
  title, and the two column ids the click handler closes over. Fields that are constants
  of the source (layout algorithm, alignment, fonts) are left out; the label and tooltip
  formatters read the module-level options when the library calls them, not at
  configuration time.
\<close>

record chartOptions =
  chart_renderTo :: string
  series_data :: "treemapPoint list"
  colorAxis_minColor :: string
  colorAxis_maxColor :: string
  colorAxis_stops :: "(rat \<times> string) list"
  legend_title :: "string option"
  click_categoryColumn :: string
  click_measureColumn :: string

datatype effect = Console logEntry | Emit tsEvent | HighchartsChart chartOptions

text \<open>
  What the code cannot control: the chart model the host returns (possibly
  \<^verbatim>\<open>undefined\<close>), whether the host's \<^verbatim>\<open>emitEvent\<close> throws for an event, and whether
  \<^verbatim>\<open>Highcharts.chart\<close> throws (for instance when the page has no element \<^verbatim>\<open>chart\<close>).
\<close>

record host =
  ctx_getChartModel :: "chartModel option"
  ctx_emitEvent_throws :: "tsEvent \<Rightarrow> bool"
  highcharts_chart_throws :: bool

text \<open>
  \<^verbatim>\<open>ctx.emitEvent(ev)\<close>: the call is recorded as an effect whether or not the host throws.
\<close>

definition emitEvent :: "host \<Rightarrow> tsEvent \<Rightarrow> (error + unit) \<times> effect list" where
  "emitEvent h ev =
     (if ctx_emitEvent_throws h ev then Inl (HostError ''emitEvent'') else Inr (), [Emit ev])"

definition emitted :: "effect list \<Rightarrow> tsEvent list" where
  "emitted es = concat (map (\<lambda>e. case e of Emit ev \<Rightarrow> [ev] | _ \<Rightarrow> []) es)"

definition mounted :: "effect list \<Rightarrow> chartOptions list" where
  "mounted es = concat (map (\<lambda>e. case e of HighchartsChart opts \<Rightarrow> [opts] | _ \<Rightarrow> []) es)"

section \<open>render\<close>

text \<open>\<^verbatim>\<open>chartModel.config?.chartConfig?.[0]?.dimensions?.[i]?.columns?.[0]\<close>: never throws.\<close>

definition render_column :: "chartModel \<Rightarrow> nat \<Rightarrow> chartColumn option" where
  "render_column cm i =
     (case cm_config cm of
        None \<Rightarrow> None
      | Some c \<Rightarrow>
          (case cc_chartConfig c of
             None \<Rightarrow> None
           | Some [] \<Rightarrow> None
           | Some (c0 # _) \<Rightarrow> first_column (cfg_dimensions c0) i))"

definition chart_options ::
    "dataModel \<Rightarrow> globals \<Rightarrow> string \<Rightarrow> string \<Rightarrow> string option \<Rightarrow> chartOptions" where
  "chart_options dataModel g categoryColumn measureColumn colorAxisColumn =
     \<lparr>chart_renderTo = ''chart'',
      series_data =
        map (\<lambda>dataPoint. dataPoint\<lparr>pt_colorValue := pt_colorValue dataPoint\<rparr>)
            (dm_values dataModel),
      colorAxis_minColor = gradientColor0 g,
      colorAxis_maxColor = gradientColor100 g,
      colorAxis_stops =
        [(0, gradientColor0 g), (1 / 2, gradientColor50 g), (1, gradientColor100 g)],
      legend_title = colorAxisColumn,
      click_categoryColumn = categoryColumn,
      click_measureColumn = measureColumn\<rparr>"

text \<open>
  The body of the \<^verbatim>\<open>try\<close> block of \<^verbatim>\<open>render\<close>: the result (an exception or a normal
  return), the module-level options afterwards, and the effects in order. Reading a
  property of an absent \<^verbatim>\<open>visualProps\<close> throws. \<^verbatim>\<open>minColorValue\<close> and
  \<^verbatim>\<open>maxColorValue\<close> are computed and never used; they are left out.
\<close>

definition render_try ::
    "(rat \<Rightarrow> string) \<Rightarrow> host \<Rightarrow> globals \<Rightarrow> (error + unit) \<times> globals \<times> effect list" where
  "render_try n2s h g =
     (case ctx_getChartModel h of
        None \<Rightarrow> (Inr (), g, [Console (LogError ''chartModel is undefined'')])
      | Some chartModel \<Rightarrow>
          (let (dataModel, logs) = getDataModel n2s chartModel
           in if length (dm_values dataModel) = 0 then
                (Inr (), g, map Console logs @ [Console (LogError ''No valid data to render.'')])
              else
                (case cm_visualProps chartModel of
                   None \<Rightarrow>
                     (Inl (TypeError ''Cannot read properties of undefined (reading 'numberFormat')''),
                      g, map Console logs)
                 | Some visualProps \<Rightarrow>
                     (let g' = apply_visualProps visualProps g;
                          categoryColumn = map_option col_id (render_column chartModel 0);
                          measureColumn = map_option col_id (render_column chartModel 1);
                          colorAxisColumn = map_option col_name (render_column chartModel 2)
                      in if \<not> truthy_str categoryColumn \<or> \<not> truthy_str measureColumn then
                           (Inr (), g', map Console logs @
                              [Console (LogError
                                 ''Invalid configuration: Missing category or measure columns.'')])
                         else if highcharts_chart_throws h then
                           (Inl (Error ''Highcharts error''), g', map Console logs)
                         else
                           (Inr (), g', map Console logs @
                              [HighchartsChart
                                 (chart_options dataModel g'
                                    (case categoryColumn of Some c \<Rightarrow> c | None \<Rightarrow> [])
                                    (case measureColumn of Some m \<Rightarrow> m | None \<Rightarrow> [])
                                    colorAxisColumn)])))))"

text \<open>
  The conditions of \<^verbatim>\<open>render\<close> after the visual properties are read: both column ids
  are truthy and \<^verbatim>\<open>Highcharts.chart\<close> does not throw.
\<close>

definition can_mount :: "host \<Rightarrow> chartModel \<Rightarrow> bool" where
  "can_mount h cm \<longleftrightarrow>
     truthy_str (map_option col_id (render_column cm 0)) \<and>
     truthy_str (map_option col_id (render_column cm 1)) \<and> \<not> highcharts_chart_throws h"

text \<open>\<^verbatim>\<open>render\<close>: the \<^verbatim>\<open>catch\<close> logs the exception and returns normally.\<close>

definition render ::
    "(rat \<Rightarrow> string) \<Rightarrow> host \<Rightarrow> globals \<Rightarrow> (error + unit) \<times> globals \<times> effect list" where
  "render n2s h g =
     (case render_try n2s h g of
        (Inr u, g', es) \<Rightarrow> (Inr (), g', Console (Log ''Rendering the chart...'') # es)
      | (Inl e, g', es) \<Rightarrow>
          (Inr (), g',
           Console (Log ''Rendering the chart...'') # es @ [Console (LogError ''Render failed: '')]))"

section \<open>renderChart\<close>

text \<open>
  \<^verbatim>\<open>try { emit RenderStart; render } catch { log; emit RenderError } finally { emit
  RenderComplete }\<close>. The function is \<^verbatim>\<open>async\<close>: an exception that leaves it rejects the
  promise it returns (\<open>Inl\<close>). An exception thrown in the \<^verbatim>\<open>finally\<close> block replaces the
  outcome of the \<^verbatim>\<open>try\<close>/\<^verbatim>\<open>catch\<close>.
\<close>

definition renderChart ::
    "(rat \<Rightarrow> string) \<Rightarrow> host \<Rightarrow> globals \<Rightarrow> (error + unit) \<times> globals \<times> effect list" where
  "renderChart n2s h g =
     (let (r1, g1, es1) =
            (case emitEvent h RenderStart of
               (Inl e, es) \<Rightarrow> (Inl e, g, es)
             | (Inr u, es) \<Rightarrow> (case render n2s h g of (r, g', es') \<Rightarrow> (r, g', es @ es')));
          (r2, es2) =
            (case r1 of
               Inr u \<Rightarrow> (Inr (), [])
             | Inl e \<Rightarrow>
                 (case emitEvent h (RenderError e) of
                    (r, es) \<Rightarrow> (r, Console (LogError ''Error during renderChart: '') # es)));
          (r3, es3) = emitEvent h RenderComplete
      in (case r3 of Inl e \<Rightarrow> Inl e | Inr u \<Rightarrow> r2,
          g1,
          Console (Log ''Starting chart rendering process...'') # es1 @ es2 @ es3))"

section \<open>The point click handler\<close>

record pointPosition =
  pageX :: "jsnum option"
  pageY :: "jsnum option"

record clickEvent =
  clientX :: "jsnum option"
  clientY :: "jsnum option"
  evt_point :: "pointPosition option"

text \<open>
  \<^verbatim>\<open>getParsedEvent\<close>: \<^verbatim>\<open>evt.clientX || evt.point.pageX\<close> reads \<^verbatim>\<open>evt.point\<close> only when
  \<^verbatim>\<open>clientX\<close> is falsy, and throws when \<^verbatim>\<open>evt.point\<close> is then absent.
\<close>

definition or_page ::
    "jsnum option \<Rightarrow> pointPosition option \<Rightarrow> (pointPosition \<Rightarrow> jsnum option)
      \<Rightarrow> error + jsnum option" where
  "or_page c pt page =
     (if truthy_num c then Inr c
      else case pt of
             None \<Rightarrow> Inl (TypeError ''Cannot read properties of undefined'')
           | Some p \<Rightarrow> Inr (page p))"

definition getParsedEvent ::
    "clickEvent \<Rightarrow> (error + jsnum option \<times> jsnum option) \<times> effect list" where
  "getParsedEvent evt =
     (case or_page (clientX evt) (evt_point evt) pageX of
        Inl e \<Rightarrow> Inl e
      | Inr x \<Rightarrow>
          (case or_page (clientY evt) (evt_point evt) pageY of
             Inl e \<Rightarrow> Inl e
           | Inr y \<Rightarrow> Inr (x, y)),
      [Console (Log ''Extracting clientX and clientY from event: '')])"

definition menu_actions :: "customAction list" where
  "menu_actions =
     [\<lparr>action_id = ''custom-action-1'', action_label = ''Custom user action 1'',
       action_icon = []\<rparr>,
      \<lparr>action_id = ''download-chart'', action_label = ''Download chart'',
       action_icon = []\<rparr>]"

text \<open>
  The \<^verbatim>\<open>click\<close> handler installed by \<^verbatim>\<open>render\<close>, for the chart options \<open>opts\<close> it
  was installed with; \<open>p\<close> is the clicked point (\<^verbatim>\<open>this\<close>) and \<open>e\<close> the event.
\<close>

definition pointClick ::
    "host \<Rightarrow> chartOptions \<Rightarrow> treemapPoint \<Rightarrow> clickEvent \<Rightarrow> (error + unit) \<times> effect list" where
  "pointClick h opts p e =
     (let categoryValue = pt_name p;
          measureValue = pt_value p;
          logs = [Console (Log ''Point click event triggered''),
                  Console (Log ''Clicked Point Details: '')]
      in case getParsedEvent e of
           (Inl err, es) \<Rightarrow> (Inl err, logs @ es)
         | (Inr xy, es) \<Rightarrow>
             (case emitEvent h
                     (OpenContextMenu
                        \<lparr>cm_event = xy,
                         clickedPoint_tuple =
                           [\<lparr>columnId = click_categoryColumn opts,
                             tp_value = JString categoryValue\<rparr>,
                            \<lparr>columnId = click_measureColumn opts,
                             tp_value = JNumber measureValue\<rparr>],
                         customActions = menu_actions\<rparr>) of
                (r, es') \<Rightarrow> (r, logs @ es @ es')))"

section \<open>getDefaultChartConfig\<close>

text \<open>
  Registered with the host by \<^verbatim>\<open>init\<close>. It has no \<^verbatim>\<open>try\<close>: its \<^verbatim>\<open>throw\<close> reaches
  the caller.
\<close>

definition getDefaultChartConfig ::
    "chartModel \<Rightarrow> (error + chartConfig list) \<times> logEntry list" where
  "getDefaultChartConfig chartModel =
     (let cols = cm_columns chartModel;
          attributeColumns = filter (\<lambda>col. col_type col = ATTRIBUTE) cols;
          measureColumns = filter (\<lambda>col. col_type col = MEASURE) cols;
          logs = [Log ''Generating default chart configuration...'',
                  Log ''Attribute columns:'', Log ''Measure columns:'']
      in if length attributeColumns = 0 \<or> length measureColumns = 0 then
           (Inl (Error
              ''Invalid chart configuration: Missing required attribute or measure columns.''),
            logs)
         else
           (Inr [\<lparr>cfg_key = ''default'',
                  cfg_dimensions =
                    [\<lparr>dim_key = ''category'',
                      dim_columns = (case attributeColumns of
                                       a # _ \<Rightarrow> ColumnObject a | [] \<Rightarrow> ColumnArray [])\<rparr>,
                     \<lparr>dim_key = ''measure'',
                      dim_columns = (case measureColumns of
                                       m # _ \<Rightarrow> ColumnObject m | [] \<Rightarrow> ColumnArray [])\<rparr>,
                     \<lparr>dim_key = ''color axis'',
                      dim_columns = (case measureColumns of
                                       _ # m # _ \<Rightarrow> ColumnObject m | _ \<Rightarrow> ColumnArray [])\<rparr>,
                     \<lparr>dim_key = ''Labels'',
                      dim_columns = (if length measureColumns > 2
                                     then ColumnArray (take 2 (drop 2 measureColumns))
                                     else ColumnArray [])\<rparr>,
                     \<lparr>dim_key = ''Tooltip columns'',
                      dim_columns = (if length measureColumns > 4
                                     then ColumnArray (drop 4 measureColumns)
                                     else ColumnArray [])\<rparr>]\<rparr>],
            logs @ [Log ''Chart Config:'']))"

section \<open>numberFormatter\<close>

text \<open>
  \<^verbatim>\<open>String.prototype.replace\<close> with a string pattern replaces the first occurrence only.
\<close>

fun js_replace :: "string \<Rightarrow> string \<Rightarrow> string \<Rightarrow> string" where
  "js_replace pat rep [] = (if pat = [] then rep else [])"
| "js_replace pat rep (c # cs) =
     (if take (length pat) (c # cs) = pat then rep @ drop (length pat) (c # cs)
      else c # js_replace pat rep cs)"

text \<open>
  \<^verbatim>\<open>numeral(value).format(fmt)\<close> belongs to the numeral library, which is not part of
  this repository: it is the parameter \<open>numeral_format\<close>. The second argument is
  \<open>None\<close> when the caller passes no format (the default \<^verbatim>\<open>'0.0'\<close> applies).
\<close>

definition numberFormatter ::
    "(jsnum \<Rightarrow> string \<Rightarrow> error + string) \<Rightarrow> jsnum \<Rightarrow> string option
      \<Rightarrow> jsval \<times> logEntry list" where
  "numberFormatter numeral_format v format =
     (let fmt = (case format of None \<Rightarrow> ''0.0'' | Some f \<Rightarrow> f);
          abbreviationFormat = fmt @ ''a''
      in case numeral_format v abbreviationFormat of
           Inr formattedValue \<Rightarrow>
             (JString (js_replace ''b'' ''B'' (js_replace ''m'' ''M''
                        (js_replace ''k'' ''K'' formattedValue))), [])
         | Inl e \<Rightarrow> (JNumber v, [LogError ''Error in numberFormatter: '']))"

text \<open>
  A stand-in for the library, used only to show that what is assumed of it below can be
  met: a finite value under a format \<^verbatim>\<open>0.0...a\<close> is scaled by the largest of
  \<open>10^12\<close>, \<open>10^9\<close>, \<open>10^6\<close>, \<open>10^3\<close> that its absolute value reaches, rounded to as
  many decimals as the format has zeros after the point, and followed by \<^verbatim>\<open>t\<close>,
  \<^verbatim>\<open>b\<close>, \<^verbatim>\<open>m\<close> or \<^verbatim>\<open>k\<close>.
\<close>

function show_nat :: "nat \<Rightarrow> string" where
  "show_nat n =
     (if n < 10 then [char_of (48 + n)] else show_nat (n div 10) @ [char_of (48 + n mod 10)])"
  by pat_completeness auto
termination
  by (relation "measure id") auto

declare show_nat.simps [simp del]

definition abbreviate :: "rat \<Rightarrow> rat \<times> string" where
  "abbreviate r =
     (if \<bar>r\<bar> \<ge> 10 ^ 12 then (r / 10 ^ 12, ''t'')
      else if \<bar>r\<bar> \<ge> 10 ^ 9 then (r / 10 ^ 9, ''b'')
      else if \<bar>r\<bar> \<ge> 10 ^ 6 then (r / 10 ^ 6, ''m'')
      else if \<bar>r\<bar> \<ge> 10 ^ 3 then (r / 10 ^ 3, ''k'')
      else (r, []))"

definition to_fixed :: "rat \<Rightarrow> nat \<Rightarrow> string" where
  "to_fixed r p =
     (let k = \<lfloor>r * 10 ^ p + 1 / 2\<rfloor>;
          a = nat \<bar>k\<bar>;
          frac = show_nat (a mod 10 ^ p)
      in (if k < 0 then ''-'' else []) @ show_nat (a div 10 ^ p) @
         (if p = 0 then [] else ''.'' @ replicate (p - length frac) (CHR ''0'') @ frac))"

definition numeral_stand_in :: "jsnum \<Rightarrow> string \<Rightarrow> error + string" where
  "numeral_stand_in v fmt =
     (case v of
        Fin r \<Rightarrow>
          (let p = length (filter (\<lambda>c. c = CHR ''0'') (dropWhile (\<lambda>c. c \<noteq> CHR ''.'') fmt))
           in if CHR ''a'' \<in> set fmt then
                (case abbreviate r of (x, abbr) \<Rightarrow> Inr (to_fixed x p @ abbr))
              else Inr (to_fixed r p))
      | _ \<Rightarrow> Inl (Error ''not modelled''))"

section \<open>Sample inputs\<close>

text \<open>
  A chart model with one attribute column and two measure columns, configured as
  category, measure and colour axis, over the given rows and visual properties.
\<close>

definition col_region :: chartColumn where
  "col_region = \<lparr>col_id = ''c0'', col_name = ''Region'', col_type = ATTRIBUTE\<rparr>"

definition col_sales :: chartColumn where
  "col_sales = \<lparr>col_id = ''c1'', col_name = ''Sales'', col_type = MEASURE\<rparr>"

definition col_profit :: chartColumn where
  "col_profit = \<lparr>col_id = ''c2'', col_name = ''Profit'', col_type = MEASURE\<rparr>"

definition sample_config :: chartModelConfig where
  "sample_config =
     \<lparr>cc_chartConfig = Some
        [\<lparr>cfg_key = ''default'',
          cfg_dimensions =
            [\<lparr>dim_key = ''category'', dim_columns = ColumnArray [col_region]\<rparr>,
             \<lparr>dim_key = ''measure'', dim_columns = ColumnArray [col_sales]\<rparr>,
             \<lparr>dim_key = ''color axis'', dim_columns = ColumnArray [col_profit]\<rparr>]\<rparr>]\<rparr>"

definition sample_model :: "jsval list list \<Rightarrow> visualProps option \<Rightarrow> chartModel" where
  "sample_model rows vp =
     \<lparr>cm_columns = [col_region, col_sales, col_profit],
      cm_data = Some [\<lparr>qd_data = Some \<lparr>dpa_columns = [''c0'', ''c1'', ''c2''],
                                        dataValue = rows\<rparr>\<rparr>],
      cm_config = Some sample_config,
      cm_visualProps = vp\<rparr>"

definition sample_rows :: "jsval list list" where
  "sample_rows =
     [[JString ''East'', JString ''10'', JString ''3''],
      [JString ''West'', JNumber (Fin 30), JNumber (Fin 1)],
      [JString ''North'', JString ''20.5'', JString ''2'']]"

definition no_visualProps :: visualProps where
  "no_visualProps =
     \<lparr>numberFormat = None, numOfLabels = None, vp_gradientColor0 = None,
      vp_gradientColor50 = None, vp_gradientColor100 = None\<rparr>"

definition sample_host :: "chartModel \<Rightarrow> host" where
  "sample_host cm =
     \<lparr>ctx_getChartModel = Some cm,
      ctx_emitEvent_throws = (\<lambda>_. False),
      highcharts_chart_throws = False\<rparr>"

text \<open>A way to print finite numbers, for the examples: rounded to an integer, in decimal.\<close>

definition plain_n2s :: "rat \<Rightarrow> string" where
  "plain_n2s r = to_fixed r 0"

section \<open>Facts about the number model and the sort\<close>

lemma js_gt0_sub: "a \<noteq> NaN \<Longrightarrow> b \<noteq> NaN \<Longrightarrow> js_gt0 (js_sub b a) = (\<not> js_ge a b)"
  by (cases a; cases b) auto

lemma js_ge_trans: "js_ge a b \<Longrightarrow> js_ge b c \<Longrightarrow> js_ge a c"
  by (cases a; cases b; cases c) auto

lemma js_ge_total: "a \<noteq> NaN \<Longrightarrow> b \<noteq> NaN \<Longrightarrow> js_ge a b \<or> js_ge b a"
  by (cases a; cases b) auto

lemma js_ge_not_NaN: "js_ge a b \<Longrightarrow> a \<noteq> NaN \<and> b \<noteq> NaN"
  by (cases a; cases b) auto



lemma set_insertPoint: "set (insertPoint x ys) = insert x (set ys)"
  by (induction ys) auto

lemma set_sortPoints: "set (sortPoints xs) = set xs"
  by (induction xs) (auto simp: set_insertPoint)

lemma sorted_insertPoint:
  assumes "pt_value x \<noteq> NaN" "\<forall>y \<in> set ys. pt_value y \<noteq> NaN" "sorted_desc ys"
  shows "sorted_desc (insertPoint x ys)"
  using assms
proof (induction ys)
  case Nil
  then show ?case by (simp add: sorted_desc_def)
next
  case (Cons y ys)
  show ?case
  proof (cases "js_gt0 (comparePoints x y)")
    case True
    then have yx: "js_ge (pt_value y) (pt_value x)"
      using Cons.prems js_gt0_sub [of "pt_value x" "pt_value y"]
        js_ge_total [of "pt_value x" "pt_value y"]
      by (auto simp: comparePoints_def)
    have "sorted_desc (insertPoint x ys)"
      using Cons by (simp add: sorted_desc_def)
    then show ?thesis
      using True yx Cons.prems by (auto simp: sorted_desc_def set_insertPoint)
  next
    case False
    then have xy: "js_ge (pt_value x) (pt_value y)"
      using Cons.prems js_gt0_sub [of "pt_value x" "pt_value y"]
      by (auto simp: comparePoints_def)
    then show ?thesis
      using False Cons.prems by (auto simp: sorted_desc_def intro: js_ge_trans)
  qed
qed

lemma sorted_sortPoints:
  "\<forall>p \<in> set ps. pt_value p \<noteq> NaN \<Longrightarrow> sorted_desc (sortPoints ps)"
proof (induction ps)
  case Nil
  then show ?case by (simp add: sorted_desc_def)
next
  case (Cons p ps)
  then show ?case by (simp add: sorted_insertPoint set_sortPoints)
qed

text \<open>
  A list of two or more points that holds a \<^verbatim>\<open>NaN\<close> value is not in descending order,
  whatever the order of its elements: the failure of the sort on such data does not depend
  on the sorting algorithm.
\<close>

lemma sorted_desc_no_NaN:
  "sorted_desc ps \<Longrightarrow> 2 \<le> length ps \<Longrightarrow> p \<in> set ps \<Longrightarrow> pt_value p \<noteq> NaN"
proof (induction ps arbitrary: p)
  case Nil
  then show ?case by simp
next
  case (Cons a ps)
  then obtain b qs where ps: "ps = b # qs" by (cases ps) auto
  have ab: "\<forall>q \<in> set ps. js_ge (pt_value a) (pt_value q)"
    using Cons.prems(1) by (simp add: sorted_desc_def)
  then have "pt_value a \<noteq> NaN" using ps js_ge_not_NaN by auto
  moreover have "\<forall>q \<in> set ps. pt_value q \<noteq> NaN" using ab js_ge_not_NaN by blast
  ultimately show ?case using Cons.prems(3) by auto
qed

section \<open>Facts about getDataModel\<close>

lemma mkPoint_fields:
  "mkPoint n2s mcs row = Inr p \<Longrightarrow>
     pt_value p = parseFloat (row_at row 1) \<and>
     pt_colorValue p = parseFloat (row_at row 2) \<and>
     pt_tooltipData p = tooltipData_of mcs row \<and>
     (if row_at row 0 = JUndefined then pt_name p = ''Unnamed''
      else js_toString n2s (row_at row 0) = Inr (pt_name p))"
  by (auto simp: mkPoint_def Let_def split: sum.splits if_splits)

lemma mapE_mkPoint_value:
  "mapE (mkPoint n2s mcs) rows = Inr pts \<Longrightarrow>
     map pt_value pts = map (\<lambda>row. parseFloat (row_at row 1)) rows"
  by (induction rows arbitrary: pts) (auto split: sum.splits dest: mkPoint_fields)

lemma mapE_mkPoint_colorValue:
  "mapE (mkPoint n2s mcs) rows = Inr pts \<Longrightarrow>
     map pt_colorValue pts = map (\<lambda>row. parseFloat (row_at row 2)) rows"
  by (induction rows arbitrary: pts) (auto split: sum.splits dest: mkPoint_fields)

text \<open>
  \<^verbatim>\<open>getDataModel\<close> either returns no point, or it found the category column and a
  measure column, mapped every row to a point without an exception, and returns the
  sorted points.
\<close>

lemma getDataModel_values_cases:
  "dm_values (fst (getDataModel n2s cm)) = [] \<or>
   (\<exists>pts. mapE (mkPoint n2s (measureColumns_of cm)) (rows_of cm) = Inr pts \<and>
      categoryColumn_of cm \<noteq> None \<and> measureColumns_of cm \<noteq> [] \<and>
      dm_values (fst (getDataModel n2s cm)) = sortPoints pts)"
  by (auto simp: getDataModel_def getDataModel_try_def rows_of_def categoryColumn_of_def
      empty_dataModel_def Let_def split: sum.splits option.splits)

section \<open>C1: the point list is in descending order of the first measure\<close>

text \<open>
  C1, as amended. Whenever every row's value at index 1 parses to a number other than
  \<^verbatim>\<open>NaN\<close>, the point list that \<^verbatim>\<open>getDataModel\<close> returns is in descending order of
  the points' \<^verbatim>\<open>value\<close> field (for every chart model, in particular for one category
  column and two or more measure columns).
\<close>

theorem getDataModel_sorted_desc:
  assumes "\<forall>row \<in> set (rows_of cm). parseFloat (row_at row 1) \<noteq> NaN"
  shows "sorted_desc (dm_values (fst (getDataModel n2s cm)))"
proof -
  consider (empty) "dm_values (fst (getDataModel n2s cm)) = []"
    | (pts) pts where "mapE (mkPoint n2s (measureColumns_of cm)) (rows_of cm) = Inr pts"
        "dm_values (fst (getDataModel n2s cm)) = sortPoints pts"
    using getDataModel_values_cases [of n2s cm] by blast
  then show ?thesis
  proof cases
    case empty
    then show ?thesis by (simp add: sorted_desc_def)
  next
    case pts
    have "map pt_value pts = map (\<lambda>row. parseFloat (row_at row 1)) (rows_of cm)"
      using pts(1) by (rule mapE_mkPoint_value)
    then have "set (map pt_value pts) = (\<lambda>row. parseFloat (row_at row 1)) ` set (rows_of cm)"
      by simp
    then have "\<forall>p \<in> set pts. pt_value p \<noteq> NaN"
      using assms by (metis (no_types, lifting) image_iff image_set)
    then show ?thesis using pts(2) by (simp add: sorted_sortPoints)
  qed
qed

theorem getDataModel_sorted_desc_witness:
  "list_all (\<lambda>row. parseFloat (row_at row 1) \<noteq> NaN) (rows_of (sample_model sample_rows None)) \<and>
   map pt_value (dm_values (fst (getDataModel plain_n2s (sample_model sample_rows None))))
     = [Fin 30, Fin (41 / 2), Fin 10] \<and>
   sorted_desc (dm_values (fst (getDataModel plain_n2s (sample_model sample_rows None))))"
proof -
  have h: "\<forall>row \<in> set (rows_of (sample_model sample_rows None)).
             parseFloat (row_at row 1) \<noteq> NaN"
    by code_simp
  have l: "list_all (\<lambda>row. parseFloat (row_at row 1) \<noteq> NaN)
             (rows_of (sample_model sample_rows None))"
    by code_simp
  have v: "map pt_value (dm_values (fst (getDataModel plain_n2s (sample_model sample_rows None))))
             = [Fin 30, Fin (41 / 2), Fin 10]"
    by code_simp
  show ?thesis
    using l v getDataModel_sorted_desc [OF h, of plain_n2s] by blast
qed

text \<open>
  C1 as stated fails: with one category column, two measure columns and a \<^verbatim>\<open>null\<close>
  measure in the second of three rows, the comparator returns \<^verbatim>\<open>NaN\<close> for every pair
  with that row, the rows keep their order, and the values come out as 1, \<^verbatim>\<open>NaN\<close>, 2.
  By \<open>sorted_desc_no_NaN\<close> no other arrangement of these three points is in descending
  order either.
\<close>

theorem getDataModel_sorted_desc_counterexample:
  "categoryColumn_of (sample_model
      [[JString ''a'', JString ''1'', JString ''0''],
       [JString ''b'', JNull, JString ''0''],
       [JString ''c'', JString ''2'', JString ''0'']] None) = Some col_region \<and>
   length (measureColumns_of (sample_model
      [[JString ''a'', JString ''1'', JString ''0''],
       [JString ''b'', JNull, JString ''0''],
       [JString ''c'', JString ''2'', JString ''0'']] None)) = 2 \<and>
   map pt_value (dm_values (fst (getDataModel plain_n2s (sample_model
      [[JString ''a'', JString ''1'', JString ''0''],
       [JString ''b'', JNull, JString ''0''],
       [JString ''c'', JString ''2'', JString ''0'']] None)))) = [Fin 1, NaN, Fin 2] \<and>
   \<not> sorted_desc (dm_values (fst (getDataModel plain_n2s (sample_model
      [[JString ''a'', JString ''1'', JString ''0''],
       [JString ''b'', JNull, JString ''0''],
       [JString ''c'', JString ''2'', JString ''0'']] None))))"
  by code_simp

section \<open>Facts about the effect lists\<close>

lemma mounted_simps:
  "mounted [] = []"
  "mounted (Console l # es) = mounted es"
  "mounted (Emit ev # es) = mounted es"
  "mounted (HighchartsChart opts # es) = opts # mounted es"
  "mounted (es @ es') = mounted es @ mounted es'"
  "mounted (map Console ls) = []"
  by (induction ls) (simp_all add: mounted_def)

lemma emitted_simps:
  "emitted [] = []"
  "emitted (Console l # es) = emitted es"
  "emitted (Emit ev # es) = ev # emitted es"
  "emitted (HighchartsChart opts # es) = emitted es"
  "emitted (es @ es') = emitted es @ emitted es'"
  "emitted (map Console ls) = []"
  by (induction ls) (simp_all add: emitted_def)

lemma mounted_mem: "HighchartsChart opts \<in> set es \<longleftrightarrow> opts \<in> set (mounted es)"
  by (induction es) (auto simp: mounted_def split: effect.splits)

section \<open>Facts about render\<close>

text \<open>The four ways a render pass ends, by the chart model the host returns.\<close>

lemma render_no_model:
  assumes "ctx_getChartModel h = None"
  shows "render n2s h g =
           (Inr (), g, [Console (Log ''Rendering the chart...''),
                        Console (LogError ''chartModel is undefined'')])"
  using assms by (simp add: render_def render_try_def)

lemma render_no_points:
  assumes "ctx_getChartModel h = Some cm" "dm_values (fst (getDataModel n2s cm)) = []"
  shows "render n2s h g =
           (Inr (), g, Console (Log ''Rendering the chart...'') #
              map Console (snd (getDataModel n2s cm)) @
              [Console (LogError ''No valid data to render.'')])"
  using assms by (cases "getDataModel n2s cm") (simp add: render_def render_try_def)

lemma render_no_visualProps:
  assumes "ctx_getChartModel h = Some cm" "dm_values (fst (getDataModel n2s cm)) \<noteq> []"
    "cm_visualProps cm = None"
  shows "render_try n2s h g =
           (Inl (TypeError ''Cannot read properties of undefined (reading 'numberFormat')''),
            g, map Console (snd (getDataModel n2s cm)))"
    and "render n2s h g =
           (Inr (), g, Console (Log ''Rendering the chart...'') #
              map Console (snd (getDataModel n2s cm)) @
              [Console (LogError ''Render failed: '')])"
  using assms by (cases "getDataModel n2s cm"; simp add: render_def render_try_def)+

lemma render_visualProps:
  assumes "ctx_getChartModel h = Some cm" "dm_values (fst (getDataModel n2s cm)) \<noteq> []"
    "cm_visualProps cm = Some vp"
  shows "fst (render n2s h g) = Inr ()"
    and "fst (snd (render n2s h g)) = apply_visualProps vp g"
    and "mounted (snd (snd (render n2s h g))) =
           (if can_mount h cm then
              [chart_options (fst (getDataModel n2s cm)) (apply_visualProps vp g)
                 (case map_option col_id (render_column cm 0) of Some c \<Rightarrow> c | None \<Rightarrow> [])
                 (case map_option col_id (render_column cm 1) of Some m \<Rightarrow> m | None \<Rightarrow> [])
                 (map_option col_name (render_column cm 2))]
            else [])"
    and "emitted (snd (snd (render n2s h g))) = []"
  using assms
  by (cases "getDataModel n2s cm";
      simp add: render_def render_try_def can_mount_def Let_def mounted_simps emitted_simps)+

lemma render_returns: "fst (render n2s h g) = Inr ()"
  by (simp add: render_def split: prod.splits sum.splits)

lemma render_emits_nothing: "emitted (snd (snd (render n2s h g))) = []"
proof (cases "ctx_getChartModel h")
  case None
  then show ?thesis by (simp add: render_no_model emitted_simps)
next
  case (Some cm)
  show ?thesis
  proof (cases "dm_values (fst (getDataModel n2s cm)) = []")
    case True
    with Some show ?thesis by (simp add: render_no_points emitted_simps)
  next
    case False
    with Some show ?thesis
      by (cases "cm_visualProps cm")
        (simp_all add: render_no_visualProps(2) render_visualProps(4) emitted_simps)
  qed
qed

lemma render_try_fails_no_mount:
  assumes "isl (fst (render_try n2s h g))"
  shows "mounted (snd (snd (render n2s h g))) = []"
    and "snd (snd (render n2s h g)) =
           Console (Log ''Rendering the chart...'') # snd (snd (render_try n2s h g)) @
             [Console (LogError ''Render failed: '')]"
  using assms
  by (auto simp: render_def render_try_def Let_def mounted_simps
      split: option.splits prod.splits sum.splits if_splits)

section \<open>C2: no category or no measure column, no chart\<close>

text \<open>
  C2. For every chart model in which the category column (the first column of the first
  configured dimension) is absent, or no column of the model is a measure,
  \<^verbatim>\<open>getDataModel\<close> returns an empty point list, and \<^verbatim>\<open>render\<close> returns normally
  without calling \<^verbatim>\<open>Highcharts.chart\<close>.
\<close>

theorem render_skipped_without_columns:
  assumes "ctx_getChartModel h = Some cm"
    and "categoryColumn_of cm = None \<or> measureColumns_of cm = []"
  shows "dm_values (fst (getDataModel n2s cm)) = [] \<and>
         fst (render n2s h g) = Inr () \<and>
         mounted (snd (snd (render n2s h g))) = []"
proof -
  have empty: "dm_values (fst (getDataModel n2s cm)) = []"
    using getDataModel_values_cases [of n2s cm] assms(2) by auto
  then have "render n2s h g =
      (Inr (), g, Console (Log ''Rendering the chart...'') #
         map Console (snd (getDataModel n2s cm)) @
         [Console (LogError ''No valid data to render.'')])"
    using assms(1) by (rule render_no_points [rotated])
  then show ?thesis using empty by (simp add: mounted_simps)
qed

theorem render_skipped_without_columns_witness:
  "categoryColumn_of ((sample_model sample_rows (Some no_visualProps))\<lparr>cm_config := None\<rparr>) = None \<and>
   dm_values (fst (getDataModel plain_n2s
      ((sample_model sample_rows (Some no_visualProps))\<lparr>cm_config := None\<rparr>))) = [] \<and>
   mounted (snd (snd (render plain_n2s
      (sample_host ((sample_model sample_rows (Some no_visualProps))\<lparr>cm_config := None\<rparr>))
      initial_globals))) = [] \<and>
   measureColumns_of ((sample_model sample_rows (Some no_visualProps))\<lparr>cm_columns := [col_region]\<rparr>) = [] \<and>
   dm_values (fst (getDataModel plain_n2s
      ((sample_model sample_rows (Some no_visualProps))\<lparr>cm_columns := [col_region]\<rparr>))) = [] \<and>
   mounted (snd (snd (render plain_n2s
      (sample_host ((sample_model sample_rows (Some no_visualProps))\<lparr>cm_columns := [col_region]\<rparr>))
      initial_globals))) = []"
proof -
  let ?a = "(sample_model sample_rows (Some no_visualProps))\<lparr>cm_config := None\<rparr>"
  let ?b = "(sample_model sample_rows (Some no_visualProps))\<lparr>cm_columns := [col_region]\<rparr>"
  have a: "categoryColumn_of ?a = None" by code_simp
  have b: "measureColumns_of ?b = []" by code_simp
  have ha: "ctx_getChartModel (sample_host ?a) = Some ?a" by (simp add: sample_host_def)
  have hb: "ctx_getChartModel (sample_host ?b) = Some ?b" by (simp add: sample_host_def)
  show ?thesis
    using a b
      render_skipped_without_columns [OF ha disjI1 [OF a], of plain_n2s initial_globals]
      render_skipped_without_columns [OF hb disjI2 [OF b], of plain_n2s initial_globals]
    by blast
qed

section \<open>C3: where failures are caught\<close>

lemma getDataModel_try_fails:
  assumes "isl (fst (getDataModel_try n2s cm))"
  shows "dm_values (fst (getDataModel n2s cm)) = []"
    and "last (snd (getDataModel n2s cm)) = LogError ''Error in getDataModel: ''"
  using assms
  by (cases "getDataModel_try n2s cm"; cases "fst (getDataModel_try n2s cm)";
      simp add: getDataModel_def empty_dataModel_def)+

lemma renderChart_no_throw:
  assumes "\<forall>ev. \<not> ctx_emitEvent_throws h ev"
  shows "renderChart n2s h g =
           (Inr (), fst (snd (render n2s h g)),
            Console (Log ''Starting chart rendering process...'') # Emit RenderStart #
              snd (snd (render n2s h g)) @ [Emit RenderComplete])"
  using assms render_returns [of n2s h g]
  by (cases "render n2s h g") (simp add: renderChart_def emitEvent_def)

text \<open>
  C3, as amended. Every failure inside \<^verbatim>\<open>getDataModel\<close> and \<^verbatim>\<open>render\<close> is caught by
  that function's own \<^verbatim>\<open>try\<close>/\<^verbatim>\<open>catch\<close> and logged: \<^verbatim>\<open>getDataModel\<close> then returns an
  empty point list, \<^verbatim>\<open>render\<close> returns normally with no chart mounted, and \<^verbatim>\<open>renderChart\<close>
  (when the host's \<^verbatim>\<open>emitEvent\<close> does not throw) resolves without a \<^verbatim>\<open>RenderError\<close> event.
  \<^verbatim>\<open>getDefaultChartConfig\<close> has no such boundary: it throws an \<^verbatim>\<open>Error\<close> to its caller
  exactly when the chart model has no attribute column or no measure column.
\<close>

theorem failures_caught_in_render_only:
  "fst (render n2s h g) = Inr () \<and>
   (isl (fst (render_try n2s h g)) \<longrightarrow>
      mounted (snd (snd (render n2s h g))) = [] \<and>
      last (snd (snd (render n2s h g))) = Console (LogError ''Render failed: '')) \<and>
   (isl (fst (getDataModel_try n2s cm)) \<longrightarrow>
      dm_values (fst (getDataModel n2s cm)) = [] \<and>
      last (snd (getDataModel n2s cm)) = LogError ''Error in getDataModel: '') \<and>
   ((\<forall>ev. \<not> ctx_emitEvent_throws h ev) \<longrightarrow>
      fst (renderChart n2s h g) = Inr () \<and>
      emitted (snd (snd (renderChart n2s h g))) = [RenderStart, RenderComplete]) \<and>
   (fst (getDefaultChartConfig cm') =
      Inl (Error ''Invalid chart configuration: Missing required attribute or measure columns.'')
    \<longleftrightarrow> filter (\<lambda>col. col_type col = ATTRIBUTE) (cm_columns cm') = [] \<or>
        filter (\<lambda>col. col_type col = MEASURE) (cm_columns cm') = [])"
proof (intro conjI impI)
  show "fst (render n2s h g) = Inr ()" by (rule render_returns)
next
  assume f: "isl (fst (render_try n2s h g))"
  show "mounted (snd (snd (render n2s h g))) = []" using f by (rule render_try_fails_no_mount(1))
  show "last (snd (snd (render n2s h g))) = Console (LogError ''Render failed: '')"
    using render_try_fails_no_mount(2) [OF f] by simp
next
  assume f: "isl (fst (getDataModel_try n2s cm))"
  show "dm_values (fst (getDataModel n2s cm)) = []" using f by (rule getDataModel_try_fails(1))
  show "last (snd (getDataModel n2s cm)) = LogError ''Error in getDataModel: ''"
    using f by (rule getDataModel_try_fails(2))
next
  assume e: "\<forall>ev. \<not> ctx_emitEvent_throws h ev"
  show "fst (renderChart n2s h g) = Inr ()" by (simp add: renderChart_no_throw [OF e])
  show "emitted (snd (snd (renderChart n2s h g))) = [RenderStart, RenderComplete]"
    by (simp add: renderChart_no_throw [OF e] emitted_simps render_emits_nothing)
next
  show "fst (getDefaultChartConfig cm') =
      Inl (Error ''Invalid chart configuration: Missing required attribute or measure columns.'')
    \<longleftrightarrow> filter (\<lambda>col. col_type col = ATTRIBUTE) (cm_columns cm') = [] \<or>
        filter (\<lambda>col. col_type col = MEASURE) (cm_columns cm') = []"
    by (simp add: getDefaultChartConfig_def Let_def)
qed

theorem failures_caught_in_render_only_witness:
  "isl (fst (render_try plain_n2s (sample_host (sample_model sample_rows None)) initial_globals)) \<and>
   fst (render plain_n2s (sample_host (sample_model sample_rows None)) initial_globals) = Inr () \<and>
   mounted (snd (snd (render plain_n2s (sample_host (sample_model sample_rows None))
      initial_globals))) = [] \<and>
   isl (fst (getDataModel_try plain_n2s
      (sample_model [[JNull, JString ''1'', JString ''2'']] None))) \<and>
   dm_values (fst (getDataModel plain_n2s
      (sample_model [[JNull, JString ''1'', JString ''2'']] None))) = [] \<and>
   fst (renderChart plain_n2s (sample_host (sample_model sample_rows None)) initial_globals)
     = Inr () \<and>
   emitted (snd (snd (renderChart plain_n2s (sample_host (sample_model sample_rows None))
      initial_globals))) = [RenderStart, RenderComplete]"
proof -
  let ?h = "sample_host (sample_model sample_rows None)"
  let ?cm = "sample_model [[JNull, JString ''1'', JString ''2'']] None"
  have a: "isl (fst (render_try plain_n2s ?h initial_globals))" by code_simp
  have b: "isl (fst (getDataModel_try plain_n2s ?cm))" by code_simp
  have c: "\<forall>ev. \<not> ctx_emitEvent_throws ?h ev" by (simp add: sample_host_def)
  show ?thesis
    using a b c failures_caught_in_render_only [of plain_n2s ?h initial_globals ?cm ?cm]
    by blast
qed

text \<open>
  C3 as stated fails: for a chart model whose only column is a measure, the registered
  \<^verbatim>\<open>getDefaultChartConfig\<close> throws, and nothing in the plugin catches it.
\<close>

theorem failures_caught_counterexample:
  "fst (getDefaultChartConfig ((sample_model sample_rows None)\<lparr>cm_columns := [col_sales]\<rparr>)) =
     Inl (Error ''Invalid chart configuration: Missing required attribute or measure columns.'')"
  by code_simp

section \<open>C4: the lifecycle events of renderChart\<close>

text \<open>
  C4, as amended. Every invocation of \<^verbatim>\<open>renderChart\<close> emits \<^verbatim>\<open>RenderStart\<close> before
  everything \<^verbatim>\<open>render\<close> does and \<^verbatim>\<open>RenderComplete\<close> after it. A failure inside
  \<^verbatim>\<open>render\<close> is caught and logged by \<^verbatim>\<open>render\<close> itself and no \<^verbatim>\<open>RenderError\<close> is emitted
  for it: \<^verbatim>\<open>RenderError\<close> is emitted only when emitting \<^verbatim>\<open>RenderStart\<close> throws (and then
  \<^verbatim>\<open>render\<close> is not called).
\<close>

theorem renderChart_lifecycle:
  "snd (snd (renderChart n2s h g)) =
     Console (Log ''Starting chart rendering process...'') # Emit RenderStart #
     (if ctx_emitEvent_throws h RenderStart then
        [Console (LogError ''Error during renderChart: ''),
         Emit (RenderError (HostError ''emitEvent''))]
      else snd (snd (render n2s h g))) @ [Emit RenderComplete] \<and>
   emitted (snd (snd (renderChart n2s h g))) =
     RenderStart #
     (if ctx_emitEvent_throws h RenderStart then [RenderError (HostError ''emitEvent'')] else [])
     @ [RenderComplete]"
proof -
  have 1: "snd (snd (renderChart n2s h g)) =
     Console (Log ''Starting chart rendering process...'') # Emit RenderStart #
     (if ctx_emitEvent_throws h RenderStart then
        [Console (LogError ''Error during renderChart: ''),
         Emit (RenderError (HostError ''emitEvent''))]
      else snd (snd (render n2s h g))) @ [Emit RenderComplete]"
    using render_returns [of n2s h g]
    by (cases "render n2s h g") (simp add: renderChart_def emitEvent_def)
  show ?thesis
    unfolding 1 by (simp add: emitted_simps render_emits_nothing)
qed

text \<open>
  C4 as stated fails: with a chart model that has points and no \<^verbatim>\<open>visualProps\<close> object,
  rendering fails (the \<^verbatim>\<open>try\<close> block of \<^verbatim>\<open>render\<close> ends in a TypeError and no chart is
  mounted), and the events are \<^verbatim>\<open>RenderStart\<close> and \<^verbatim>\<open>RenderComplete\<close> only.
\<close>

theorem renderChart_lifecycle_counterexample:
  "fst (render_try plain_n2s (sample_host (sample_model sample_rows None)) initial_globals) =
     Inl (TypeError ''Cannot read properties of undefined (reading 'numberFormat')'') \<and>
   mounted (snd (snd (renderChart plain_n2s (sample_host (sample_model sample_rows None))
     initial_globals))) = [] \<and>
   emitted (snd (snd (renderChart plain_n2s (sample_host (sample_model sample_rows None))
     initial_globals))) = [RenderStart, RenderComplete]"
  by code_simp

section \<open>C5: numberFormatter\<close>

text \<open>
  C5. \<^verbatim>\<open>numberFormatter\<close> applied to 1500 with format \<^verbatim>\<open>'0.0'\<close> returns \<^verbatim>\<open>"1.5K"\<close>, and
  applied to 2000000 returns \<^verbatim>\<open>"2.0M"\<close>. The code asks the numeral library for the format
  \<^verbatim>\<open>'0.0a'\<close> and turns the first \<^verbatim>\<open>k\<close>, \<^verbatim>\<open>m\<close> and \<^verbatim>\<open>b\<close> of the answer into capitals; the
  library's answers \<^verbatim>\<open>"1.5k"\<close> and \<^verbatim>\<open>"2.0m"\<close> are what is assumed of it.
\<close>

theorem numberFormatter_examples:
  assumes "numeral_format (Fin 1500) ''0.0a'' = Inr ''1.5k''"
    and "numeral_format (Fin 2000000) ''0.0a'' = Inr ''2.0m''"
  shows "numberFormatter numeral_format (Fin 1500) (Some ''0.0'') = (JString ''1.5K'', []) \<and>
         numberFormatter numeral_format (Fin 2000000) (Some ''0.0'') = (JString ''2.0M'', [])"
  using assms by (simp add: numberFormatter_def)

theorem numberFormatter_examples_witness:
  "numeral_stand_in (Fin 1500) ''0.0a'' = Inr ''1.5k'' \<and>
   numeral_stand_in (Fin 2000000) ''0.0a'' = Inr ''2.0m'' \<and>
   numberFormatter numeral_stand_in (Fin 1500) (Some ''0.0'') = (JString ''1.5K'', []) \<and>
   numberFormatter numeral_stand_in (Fin 2000000) (Some ''0.0'') = (JString ''2.0M'', [])"
proof -
  have a: "numeral_stand_in (Fin 1500) ''0.0a'' = Inr ''1.5k''" by code_simp
  have b: "numeral_stand_in (Fin 2000000) ''0.0a'' = Inr ''2.0m''" by code_simp
  show ?thesis
    using a b numberFormatter_examples [of numeral_stand_in] by blast
qed

section \<open>C6: the click handler\<close>

lemma render_mounted_options:
  assumes "ctx_getChartModel h = Some cm"
    and "HighchartsChart opts \<in> set (snd (snd (render n2s h g)))"
  shows "\<exists>vp. cm_visualProps cm = Some vp \<and> can_mount h cm \<and>
           dm_values (fst (getDataModel n2s cm)) \<noteq> [] \<and>
           opts = chart_options (fst (getDataModel n2s cm)) (apply_visualProps vp g)
              (case map_option col_id (render_column cm 0) of Some c \<Rightarrow> c | None \<Rightarrow> [])
              (case map_option col_id (render_column cm 1) of Some m \<Rightarrow> m | None \<Rightarrow> [])
              (map_option col_name (render_column cm 2))"
proof -
  have m: "opts \<in> set (mounted (snd (snd (render n2s h g))))"
    using assms(2) by (simp add: mounted_mem)
  have ne: "dm_values (fst (getDataModel n2s cm)) \<noteq> []"
  proof
    assume "dm_values (fst (getDataModel n2s cm)) = []"
    then show False using m assms(1) by (simp add: render_no_points mounted_simps)
  qed
  obtain vp where vp: "cm_visualProps cm = Some vp"
    using m assms(1) ne
    by (cases "cm_visualProps cm") (simp_all add: render_no_visualProps(2) mounted_simps)
  show ?thesis
    using m render_visualProps(3) [OF assms(1) ne vp, of g] vp ne
    by (auto split: if_splits)
qed

lemma or_page_returns:
  "truthy_num c \<or> pt \<noteq> None \<Longrightarrow> \<exists>v. or_page c pt page = Inr v"
  by (cases pt) (auto simp: or_page_def)

text \<open>
  C6. For every click on a point of a chart that \<^verbatim>\<open>render\<close> mounted, with an event that
  carries the clicked point (as the charting library's point click events do) or truthy
  \<^verbatim>\<open>clientX\<close> and \<^verbatim>\<open>clientY\<close>, the click handler emits exactly one event, an
  \<^verbatim>\<open>OpenContextMenu\<close>, whose \<^verbatim>\<open>clickedPoint.tuple\<close> is the clicked point's name paired
  with the id of the category column (first column of the first dimension) and its value
  paired with the id of the measure column (first column of the second dimension).
\<close>

theorem pointClick_emits_one_menu_event:
  assumes "ctx_getChartModel h = Some cm"
    and "HighchartsChart opts \<in> set (snd (snd (render n2s h g)))"
    and "(truthy_num (clientX e) \<and> truthy_num (clientY e)) \<or> evt_point e \<noteq> None"
  shows "map_option col_id (render_column cm 0) = Some (click_categoryColumn opts) \<and>
         map_option col_id (render_column cm 1) = Some (click_measureColumn opts) \<and>
         (\<exists>xy. emitted (snd (pointClick h opts p e)) =
            [OpenContextMenu
               \<lparr>cm_event = xy,
                clickedPoint_tuple =
                  [\<lparr>columnId = click_categoryColumn opts, tp_value = JString (pt_name p)\<rparr>,
                   \<lparr>columnId = click_measureColumn opts, tp_value = JNumber (pt_value p)\<rparr>],
                customActions = menu_actions\<rparr>])"
proof -
  obtain vp where cm: "can_mount h cm"
    and opts: "opts = chart_options (fst (getDataModel n2s cm)) (apply_visualProps vp g)
              (case map_option col_id (render_column cm 0) of Some c \<Rightarrow> c | None \<Rightarrow> [])
              (case map_option col_id (render_column cm 1) of Some m \<Rightarrow> m | None \<Rightarrow> [])
              (map_option col_name (render_column cm 2))"
    using render_mounted_options [OF assms(1,2)] by blast
  have c0: "map_option col_id (render_column cm 0) = Some (click_categoryColumn opts)"
    using cm by (cases "render_column cm 0") (simp_all add: can_mount_def opts chart_options_def)
  have c1: "map_option col_id (render_column cm 1) = Some (click_measureColumn opts)"
    using cm by (cases "render_column cm 1") (simp_all add: can_mount_def opts chart_options_def)
  have "truthy_num (clientX e) \<or> evt_point e \<noteq> None"
    and "truthy_num (clientY e) \<or> evt_point e \<noteq> None"
    using assms(3) by blast+
  then obtain x y where x: "or_page (clientX e) (evt_point e) pageX = Inr x"
    and y: "or_page (clientY e) (evt_point e) pageY = Inr y"
    using or_page_returns by metis
  have pe: "getParsedEvent e =
      (Inr (x, y), [Console (Log ''Extracting clientX and clientY from event: '')])"
    by (simp add: getParsedEvent_def x y)
  have "emitted (snd (pointClick h opts p e)) =
            [OpenContextMenu
               \<lparr>cm_event = (x, y),
                clickedPoint_tuple =
                  [\<lparr>columnId = click_categoryColumn opts, tp_value = JString (pt_name p)\<rparr>,
                   \<lparr>columnId = click_measureColumn opts, tp_value = JNumber (pt_value p)\<rparr>],
                customActions = menu_actions\<rparr>]"
    by (simp add: pointClick_def Let_def pe emitEvent_def emitted_simps)
  then show ?thesis using c0 c1 by blast
qed

theorem pointClick_emits_one_menu_event_witness:
  "HighchartsChart (chart_options
       (fst (getDataModel plain_n2s (sample_model sample_rows (Some no_visualProps))))
       initial_globals ''c0'' ''c1'' (Some ''Profit''))
     \<in> set (snd (snd (render plain_n2s
          (sample_host (sample_model sample_rows (Some no_visualProps))) initial_globals))) \<and>
   emitted (snd (pointClick (sample_host (sample_model sample_rows (Some no_visualProps)))
      (chart_options
         (fst (getDataModel plain_n2s (sample_model sample_rows (Some no_visualProps))))
         initial_globals ''c0'' ''c1'' (Some ''Profit''))
      \<lparr>pt_name = ''West'', pt_value = Fin 30, pt_colorValue = Fin 1, pt_tooltipData = []\<rparr>
      \<lparr>clientX = Some (Fin 120), clientY = Some (Fin 80), evt_point = None\<rparr>)) =
     [OpenContextMenu
        \<lparr>cm_event = (Some (Fin 120), Some (Fin 80)),
         clickedPoint_tuple =
           [\<lparr>columnId = ''c0'', tp_value = JString ''West''\<rparr>,
            \<lparr>columnId = ''c1'', tp_value = JNumber (Fin 30)\<rparr>],
         customActions = menu_actions\<rparr>]"
proof -
  let ?cm = "sample_model sample_rows (Some no_visualProps)"
  let ?h = "sample_host ?cm"
  let ?opts = "chart_options (fst (getDataModel plain_n2s ?cm)) initial_globals
                 ''c0'' ''c1'' (Some ''Profit'')"
  let ?p = "\<lparr>pt_name = ''West'', pt_value = Fin 30, pt_colorValue = Fin 1, pt_tooltipData = []\<rparr>"
  let ?e = "\<lparr>clientX = Some (Fin 120), clientY = Some (Fin 80), evt_point = None\<rparr>"
  have h: "ctx_getChartModel ?h = Some ?cm" by (simp add: sample_host_def)
  have m: "HighchartsChart ?opts \<in> set (snd (snd (render plain_n2s ?h initial_globals)))"
    by code_simp
  have e: "(truthy_num (clientX ?e) \<and> truthy_num (clientY ?e)) \<or> evt_point ?e \<noteq> None"
    by simp
  have ids: "click_categoryColumn ?opts = ''c0''" "click_measureColumn ?opts = ''c1''"
    by (simp_all add: chart_options_def)
  obtain xy where xy: "emitted (snd (pointClick ?h ?opts ?p ?e)) =
            [OpenContextMenu
               \<lparr>cm_event = xy,
                clickedPoint_tuple =
                  [\<lparr>columnId = click_categoryColumn ?opts, tp_value = JString (pt_name ?p)\<rparr>,
                   \<lparr>columnId = click_measureColumn ?opts, tp_value = JNumber (pt_value ?p)\<rparr>],
                customActions = menu_actions\<rparr>]"
    using pointClick_emits_one_menu_event [OF h m e, of ?p] by blast
  have "emitted (snd (pointClick ?h ?opts ?p ?e)) =
     [OpenContextMenu
        \<lparr>cm_event = (Some (Fin 120), Some (Fin 80)),
         clickedPoint_tuple =
           [\<lparr>columnId = ''c0'', tp_value = JString ''West''\<rparr>,
            \<lparr>columnId = ''c1'', tp_value = JNumber (Fin 30)\<rparr>],
         customActions = menu_actions\<rparr>]"
    by code_simp
  then show ?thesis using m xy by blast
qed

section \<open>C7: gradient colours reach the colour axis only\<close>

lemma inputs_ignore_visualProps:
  "configDimensions_of (cm\<lparr>cm_visualProps := v\<rparr>) = configDimensions_of cm"
  "dataArr_of (cm\<lparr>cm_visualProps := v\<rparr>) = dataArr_of cm"
  "measureColumns_of (cm\<lparr>cm_visualProps := v\<rparr>) = measureColumns_of cm"
  "render_column (cm\<lparr>cm_visualProps := v\<rparr>) i = render_column cm i"
  by (simp_all add: configDimensions_of_def dataArr_of_def measureColumns_of_def
      render_column_def)

lemma getDataModel_ignores_visualProps:
  "getDataModel n2s (cm\<lparr>cm_visualProps := v\<rparr>) = getDataModel n2s cm"
  unfolding getDataModel_def getDataModel_try_def inputs_ignore_visualProps ..

lemma can_mount_ignores_visualProps:
  "can_mount (h\<lparr>ctx_getChartModel := m\<rparr>) (cm\<lparr>cm_visualProps := v\<rparr>) = can_mount h cm"
  by (simp add: can_mount_def inputs_ignore_visualProps)

lemma render_mounts:
  assumes "ctx_getChartModel h = Some cm" "cm_visualProps cm = Some vp"
  shows "map series_data (mounted (snd (snd (render n2s h g)))) =
           (if dm_values (fst (getDataModel n2s cm)) \<noteq> [] \<and> can_mount h cm
            then [dm_values (fst (getDataModel n2s cm))] else [])"
    and "map colorAxis_stops (mounted (snd (snd (render n2s h g)))) =
           (if dm_values (fst (getDataModel n2s cm)) \<noteq> [] \<and> can_mount h cm
            then [[(0, or_str (vp_gradientColor0 vp) (gradientColor0 g)),
                   (1 / 2, or_str (vp_gradientColor50 vp) (gradientColor50 g)),
                   (1, or_str (vp_gradientColor100 vp) (gradientColor100 g))]]
            else [])"
proof -
  have id: "map (\<lambda>dataPoint. dataPoint\<lparr>pt_colorValue := pt_colorValue dataPoint\<rparr>) ps = ps"
    for ps :: "treemapPoint list"
    by (induction ps) simp_all
  show "map series_data (mounted (snd (snd (render n2s h g)))) =
           (if dm_values (fst (getDataModel n2s cm)) \<noteq> [] \<and> can_mount h cm
            then [dm_values (fst (getDataModel n2s cm))] else [])"
  proof (cases "dm_values (fst (getDataModel n2s cm)) = []")
    case True
    then show ?thesis using assms(1) by (simp add: render_no_points mounted_simps)
  next
    case False
    then show ?thesis
      using render_visualProps(3) [OF assms(1) False assms(2), of g]
      by (simp add: chart_options_def id)
  qed
  show "map colorAxis_stops (mounted (snd (snd (render n2s h g)))) =
           (if dm_values (fst (getDataModel n2s cm)) \<noteq> [] \<and> can_mount h cm
            then [[(0, or_str (vp_gradientColor0 vp) (gradientColor0 g)),
                   (1 / 2, or_str (vp_gradientColor50 vp) (gradientColor50 g)),
                   (1, or_str (vp_gradientColor100 vp) (gradientColor100 g))]]
            else [])"
  proof (cases "dm_values (fst (getDataModel n2s cm)) = []")
    case True
    then show ?thesis using assms(1) by (simp add: render_no_points mounted_simps)
  next
    case False
    then show ?thesis
      using render_visualProps(3) [OF assms(1) False assms(2), of g]
      by (simp add: chart_options_def apply_visualProps_def)
  qed
qed

text \<open>
  C7. Take a render pass for a chart model \<open>cm\<close> with visual properties \<open>vp\<close>, and a
  second pass that differs from it only in the three gradient colour properties (now
  \<open>a\<close>, \<open>b\<close>, \<open>c\<close>); the module-level options \<open>g\<close> and \<open>g'\<close> at the start of the two
  passes are arbitrary, so the second pass may follow the first. Both passes hand the
  same series data points to the chart (or both mount no chart), while the colour-axis
  stops of each pass are its own three colours, a falsy colour falling back to the
  module-level value.
\<close>

theorem gradient_colors_change_stops_only:
  assumes "ctx_getChartModel h = Some cm" and "cm_visualProps cm = Some vp"
    and "vp' = vp\<lparr>vp_gradientColor0 := a, vp_gradientColor50 := b, vp_gradientColor100 := c\<rparr>"
    and "cm' = cm\<lparr>cm_visualProps := Some vp'\<rparr>"
    and "h' = h\<lparr>ctx_getChartModel := Some cm'\<rparr>"
  shows "map series_data (mounted (snd (snd (render n2s h' g')))) =
         map series_data (mounted (snd (snd (render n2s h g)))) \<and>
         map colorAxis_stops (mounted (snd (snd (render n2s h g)))) =
           (if mounted (snd (snd (render n2s h g))) = [] then []
            else [[(0, or_str (vp_gradientColor0 vp) (gradientColor0 g)),
                   (1 / 2, or_str (vp_gradientColor50 vp) (gradientColor50 g)),
                   (1, or_str (vp_gradientColor100 vp) (gradientColor100 g))]]) \<and>
         map colorAxis_stops (mounted (snd (snd (render n2s h' g')))) =
           (if mounted (snd (snd (render n2s h g))) = [] then []
            else [[(0, or_str a (gradientColor0 g')),
                   (1 / 2, or_str b (gradientColor50 g')),
                   (1, or_str c (gradientColor100 g'))]])"
proof -
  have h': "ctx_getChartModel h' = Some cm'" and vp': "cm_visualProps cm' = Some vp'"
    using assms by simp_all
  have dm: "getDataModel n2s cm' = getDataModel n2s cm"
    using assms(4) by (simp add: getDataModel_ignores_visualProps)
  have cmt: "can_mount h' cm' = can_mount h cm"
    using assms(4,5) by (simp add: can_mount_ignores_visualProps)
  have e: "mounted (snd (snd (render n2s h g))) = [] \<longleftrightarrow>
           \<not> (dm_values (fst (getDataModel n2s cm)) \<noteq> [] \<and> can_mount h cm)"
    using render_mounts(1) [OF assms(1,2), of n2s g] by (auto split: if_splits)
  show ?thesis
    using render_mounts [OF assms(1,2), of n2s g] render_mounts [OF h' vp', of n2s g'] e
    by (simp add: dm cmt assms(3))
qed

theorem gradient_colors_change_stops_only_witness:
  "map series_data (mounted (snd (snd (render plain_n2s
      (sample_host (sample_model sample_rows (Some no_visualProps))) initial_globals)))) =
   map series_data (mounted (snd (snd (render plain_n2s
      (sample_host (sample_model sample_rows (Some (no_visualProps
         \<lparr>vp_gradientColor0 := Some ''#000000'', vp_gradientColor50 := Some ''#777777'',
          vp_gradientColor100 := Some ''#FFFFFF''\<rparr>)))) initial_globals)))) \<and>
   map colorAxis_stops (mounted (snd (snd (render plain_n2s
      (sample_host (sample_model sample_rows (Some no_visualProps))) initial_globals)))) =
     [[(0, ''#F0F0F0''), (1 / 2, ''#A8D5BA''), (1, ''#4F6D7A'')]] \<and>
   map colorAxis_stops (mounted (snd (snd (render plain_n2s
      (sample_host (sample_model sample_rows (Some (no_visualProps
         \<lparr>vp_gradientColor0 := Some ''#000000'', vp_gradientColor50 := Some ''#777777'',
          vp_gradientColor100 := Some ''#FFFFFF''\<rparr>)))) initial_globals)))) =
     [[(0, ''#000000''), (1 / 2, ''#777777''), (1, ''#FFFFFF'')]]"
proof -
  let ?cm = "sample_model sample_rows (Some no_visualProps)"
  let ?vp' = "no_visualProps\<lparr>vp_gradientColor0 := Some ''#000000'',
      vp_gradientColor50 := Some ''#777777'', vp_gradientColor100 := Some ''#FFFFFF''\<rparr>"
  let ?cm' = "sample_model sample_rows (Some ?vp')"
  have 1: "ctx_getChartModel (sample_host ?cm) = Some ?cm" by (simp add: sample_host_def)
  have 2: "cm_visualProps ?cm = Some no_visualProps" by (simp add: sample_model_def)
  have 4: "?cm' = ?cm\<lparr>cm_visualProps := Some ?vp'\<rparr>" by (simp add: sample_model_def)
  have 5: "sample_host ?cm' = (sample_host ?cm)\<lparr>ctx_getChartModel := Some ?cm'\<rparr>"
    by (simp add: sample_host_def)
  have s1: "map colorAxis_stops (mounted (snd (snd (render plain_n2s
      (sample_host ?cm) initial_globals)))) =
     [[(0, ''#F0F0F0''), (1 / 2, ''#A8D5BA''), (1, ''#4F6D7A'')]]"
    by code_simp
  have s2: "map colorAxis_stops (mounted (snd (snd (render plain_n2s
      (sample_host ?cm') initial_globals)))) =
     [[(0, ''#000000''), (1 / 2, ''#777777''), (1, ''#FFFFFF'')]]"
    by code_simp
  have "map series_data (mounted (snd (snd (render plain_n2s (sample_host ?cm') initial_globals))))
      = map series_data (mounted (snd (snd (render plain_n2s (sample_host ?cm) initial_globals))))"
    using gradient_colors_change_stops_only [OF 1 2 refl 4 5, of plain_n2s initial_globals
        initial_globals]
    by blast
  then show ?thesis using s1 s2 by simp
qed

section \<open>C8: the colour value is read from row index 2, unguarded\<close>







section \<open>C9: what a render pass does to the module-level options\<close>

text \<open>
  C9, as amended. A render pass that finds a chart model with a non-empty point list and
  a \<^verbatim>\<open>visualProps\<close> object sets each of \<^verbatim>\<open>userNumberFormat\<close>, \<^verbatim>\<open>numberOfLabels\<close> and
  \<^verbatim>\<open>gradientColor0/50/100\<close> to the host's property when that property is truthy (a
  non-empty string; a number other than 0 and \<^verbatim>\<open>NaN\<close>), and otherwise leaves it at the
  value it had before the pass, which is the initial default only as long as no earlier
  pass changed it. A pass that ends before that point leaves all five unchanged.
\<close>

theorem render_updates_globals:
  "fst (snd (render n2s h g)) =
     (case ctx_getChartModel h of
        None \<Rightarrow> g
      | Some cm \<Rightarrow>
          if dm_values (fst (getDataModel n2s cm)) = [] then g
          else (case cm_visualProps cm of
                  None \<Rightarrow> g
                | Some vp \<Rightarrow>
                    \<lparr>userNumberFormat =
                       (if truthy_str (numberFormat vp) then the (numberFormat vp)
                        else userNumberFormat g),
                     numberOfLabels =
                       (if truthy_num (numOfLabels vp) then the (numOfLabels vp)
                        else numberOfLabels g),
                     gradientColor0 =
                       (if truthy_str (vp_gradientColor0 vp) then the (vp_gradientColor0 vp)
                        else gradientColor0 g),
                     gradientColor50 =
                       (if truthy_str (vp_gradientColor50 vp) then the (vp_gradientColor50 vp)
                        else gradientColor50 g),
                     gradientColor100 =
                       (if truthy_str (vp_gradientColor100 vp) then the (vp_gradientColor100 vp)
                        else gradientColor100 g)\<rparr>))"
proof (cases "ctx_getChartModel h")
  case None
  then show ?thesis by (simp add: render_no_model)
next
  case (Some cm)
  show ?thesis
  proof (cases "dm_values (fst (getDataModel n2s cm)) = []")
    case True
    then show ?thesis using Some by (simp add: render_no_points)
  next
    case False
    show ?thesis
    proof (cases "cm_visualProps cm")
      case None
      then show ?thesis using Some False by (simp add: render_no_visualProps(2))
    next
      case (Some vp)
      have s: "or_str p cur = (if truthy_str p then the p else cur)" for p cur
        by (cases p) (simp_all add: or_str_def)
      have n: "or_num q c = (if truthy_num q then the q else c)" for q c
        by (cases q) (simp_all add: or_num_def)
      show ?thesis
        using \<open>ctx_getChartModel h = Some cm\<close> False Some
        by (simp add: render_visualProps(2) apply_visualProps_def s n)
    qed
  qed
qed

text \<open>
  C9 as stated fails: after a pass that set \<^verbatim>\<open>gradientColor0\<close> to \<^verbatim>\<open>#111111\<close>, a pass
  whose visual properties have no \<^verbatim>\<open>gradientColor0\<close> keeps \<^verbatim>\<open>#111111\<close> instead of the
  default \<^verbatim>\<open>#F0F0F0\<close>; and a pass over an empty result set ignores the visual properties.
\<close>

theorem render_updates_globals_counterexample:
  "gradientColor0 (fst (snd (render plain_n2s
       (sample_host (sample_model sample_rows (Some no_visualProps)))
       (fst (snd (render plain_n2s
          (sample_host (sample_model sample_rows
             (Some (no_visualProps\<lparr>vp_gradientColor0 := Some ''#111111''\<rparr>))))
          initial_globals)))))) = ''#111111'' \<and>
   gradientColor0 initial_globals = ''#F0F0F0'' \<and>
   gradientColor0 (fst (snd (render plain_n2s
       (sample_host (sample_model []
          (Some (no_visualProps\<lparr>vp_gradientColor0 := Some ''#111111''\<rparr>))))
       initial_globals))) = ''#F0F0F0''"
  by code_simp

section \<open>C10: the name of a point\<close>

text \<open>
  For a row whose category is \<^verbatim>\<open>undefined\<close> the point is named \<^verbatim>\<open>Unnamed\<close>, and for a
  string or a number it is named by the value's \<^verbatim>\<open>toString()\<close>.
\<close>

lemma mkPoint_name:
  "row_at row 0 = JUndefined \<Longrightarrow>
     map_sum id pt_name (mkPoint n2s mcs row) = Inr ''Unnamed''"
  "row_at row 0 = JString s \<Longrightarrow> map_sum id pt_name (mkPoint n2s mcs row) = Inr s"
  "row_at row 0 = JNumber n \<Longrightarrow>
     map_sum id pt_name (mkPoint n2s mcs row) = Inr (number_toString n2s n)"
  by (simp_all add: mkPoint_def)

text \<open>
  C10 fails on a row whose category is \<^verbatim>\<open>null\<close>: \<^verbatim>\<open>null !== undefined\<close> holds, so
  \<^verbatim>\<open>null.toString()\<close> is called and throws; the \<^verbatim>\<open>catch\<close> of \<^verbatim>\<open>getDataModel\<close> then
  returns an empty point list, and the other rows lose their points as well.
\<close>

theorem null_category_drops_all_points:
  "mkPoint plain_n2s [col_sales, col_profit] [JNull, JString ''5'', JString ''1''] =
     Inl (TypeError ''Cannot read properties of null (reading 'toString')'') \<and>
   getDataModel plain_n2s (sample_model
      [[JString ''East'', JString ''10'', JString ''3''],
       [JNull, JString ''5'', JString ''1'']] None) =
     (empty_dataModel,
      [Log ''Extracting data model from chartModel: '', LogError ''Error in getDataModel: ''])"
  by code_simp

end
